theory Spec2Isabelle
  imports Main "HOL-Library.Word" "HOL-Library.Sublist"
begin

section \<open>Errors\<close>

text \<open>
  A Go \<open>error\<close> built in place with \<open>errors.New(msg)\<close> is its message; the two sentinel
  values of package \<open>eth\<close> that the tests hand to the mocked backend are constructors
  of their own, since that package is not among the sources and their messages are
  unknown. \<open>nil\<close> is \<open>None\<close> of \<open>go_error option\<close>.
\<close>

datatype go_error = ErrInvalidNonce | ErrExceedsBalance | GoError string

section \<open>Authentication plugins\<close>

subsection \<open>auth/insecure/insecure.go\<close>

definition ErrDataTooShort :: go_error where
  "ErrDataTooShort = GoError ''Payload data is too short''"

text \<open>\<open>func (InsecureAuth) Verify(data string, expectedAAD string) error\<close>\<close>

definition InsecureAuth_Verify :: "string \<Rightarrow> string \<Rightarrow> go_error option" where
  "InsecureAuth_Verify data expectedAAD =
     (if length data = 0 then Some ErrDataTooShort else None)"

subsection \<open>auth/oauth/google.go\<close>

text \<open>
  \<open>auth.AuthRequest\<close> is declared outside the sources; \<open>Verify\<close> reads its fields
  \<open>API\<close> and \<open>AAD\<close> (a byte slice, converted with \<open>string(data.AAD)\<close>).
\<close>

record AuthRequest =
  API :: string
  AAD :: string

text \<open>
  The outcome of \<open>GoogleOauth.Verify\<close>: the returned error, or a panic raised inside
  \<open>core.MustGetAAD\<close>. That helper is not among the sources, so it is a parameter:
  \<open>mustGetAAD ctx\<close> is \<open>Some aad\<close> when it returns and \<open>None\<close> when it panics.
\<close>

datatype verify_outcome = Returned "go_error option" | MustGetAADPanics

definition GoogleOauth_Verify ::
  "('ctx \<Rightarrow> string option) \<Rightarrow> 'ctx \<Rightarrow> AuthRequest \<Rightarrow> verify_outcome" where
  "GoogleOauth_Verify mustGetAAD ctx data =
     (if API data = ''Deploy''
      then Returned (Some (GoError ''GoogleOauth cannot authorize a user to deploy a service''))
      else (case mustGetAAD ctx of
              None \<Rightarrow> MustGetAADPanics
            | Some expectedAAD \<Rightarrow>
                if AAD data \<noteq> expectedAAD
                then Returned (Some (GoError ''AAD does not match''))
                else Returned None))"

section \<open>Connection pool (package noise)\<close>

text \<open>
  \<open>DialContext\<close> and the connection type \<open>Conn\<close> are declared outside the sources,
  so the outcome of the \<open>i\<close>-th call of \<open>DialContext\<close> is a parameter. What the pool
  does to the outside is recorded in a \<open>pool_runtime\<close>: the connections handed to a
  started \<open>startConnLoop\<close> task, whether \<open>cancel()\<close> of the derived context has been
  called, and the connections that have been closed.
\<close>

record 'c pool_runtime =
  loops :: "'c list"
  ctxCancelled :: bool
  closedConns :: "'c list"

text \<open>\<open>func (p *FixedConnPool) dialConnection(ctx, channel, props) error\<close>\<close>

definition dialConnection ::
  "go_error + 'c \<Rightarrow> 'c pool_runtime \<Rightarrow> go_error option \<times> 'c pool_runtime" where
  "dialConnection dialed w =
     (case dialed of
        Inl err \<Rightarrow> (Some err, w)
      | Inr conn \<Rightarrow> (None, w\<lparr>loops := loops w @ [conn]\<rparr>))"

text \<open>
  The loop of \<open>DialFixedPool\<close>, \<open>for i := 0; i < props.Conns; i++\<close>, entered at \<open>i\<close>.
  On a failed dial it calls \<open>cancel()\<close> and returns \<open>nil, err\<close>.
\<close>

function dialFrom ::
  "(nat \<Rightarrow> go_error + 'c) \<Rightarrow> int \<Rightarrow> nat \<Rightarrow> 'c pool_runtime \<Rightarrow> go_error option \<times> 'c pool_runtime"
  where
  "dialFrom DialContext Conns i w =
     (if int i < Conns then
        (case dialConnection (DialContext i) w of
           (Some err, w') \<Rightarrow> (Some err, w'\<lparr>ctxCancelled := True\<rparr>)
         | (None, w') \<Rightarrow> dialFrom DialContext Conns (i + 1) w')
      else (None, w))"
  by pat_completeness auto
termination
  by (relation "measure (\<lambda>(DialContext, Conns, i, w). nat (Conns - int i))") auto

text \<open>
  \<open>func DialFixedPool(ctx, props) (*FixedConnPool, error)\<close>: the error is \<open>None\<close> when
  the pool is returned.
\<close>

definition DialFixedPool ::
  "(nat \<Rightarrow> go_error + 'c) \<Rightarrow> int \<Rightarrow> go_error option \<times> 'c pool_runtime" where
  "DialFixedPool DialContext Conns =
     dialFrom DialContext Conns 0 \<lparr>loops = [], ctxCancelled = False, closedConns = []\<rparr>"

section \<open>Mailbox, in-memory variant (package mem)\<close>

text \<open>
  The per-key \<open>Worker\<close> is declared outside the sources; the server only keeps the map
  from keys to workers and forwards requests. What a worker answers to a discard is a
  parameter \<open>workerDiscard\<close>, returning the value sent on the request's \<open>Out\<close> channel
  and the worker afterwards. The \<open>Out\<close> channel of a request is modelled by the value
  sent on it.
\<close>

record discardWorkerRequest =
  Key :: string
  Offset :: "64 word"

record 'w Server =
  workers :: "string \<rightharpoonup> 'w"

definition NewServer :: "'w Server" where
  "NewServer = \<lparr>workers = Map.empty\<rparr>"

text \<open>\<open>func (s *Server) discard(req discardWorkerRequest)\<close>: the value sent on \<open>req.Out\<close>.\<close>

definition discard ::
  "('w \<Rightarrow> 64 word \<Rightarrow> go_error option \<times> 'w) \<Rightarrow> 'w Server \<Rightarrow> discardWorkerRequest
     \<Rightarrow> go_error option \<times> 'w Server" where
  "discard workerDiscard s req =
     (case workers s (Key req) of
        None \<Rightarrow> (Some (GoError ''attempt to discard queue that does not exist''), s)
      | Some worker \<Rightarrow>
          (case workerDiscard worker (Offset req) of
             (sent, worker') \<Rightarrow> (sent, s\<lparr>workers := (workers s)(Key req \<mapsto> worker')\<rparr>)))"

text \<open>
  \<open>func (s *Server) Discard(key string, offset uint64) error\<close>: the request goes through
  the supervisor to \<open>discard\<close>; the caller receives from \<open>out\<close> with \<open><-out\<close>, drops the
  received value and returns \<open>nil\<close>.
\<close>

definition Discard ::
  "('w \<Rightarrow> 64 word \<Rightarrow> go_error option \<times> 'w) \<Rightarrow> 'w Server \<Rightarrow> string \<Rightarrow> 64 word
     \<Rightarrow> go_error option \<times> 'w Server" where
  "Discard workerDiscard s key offset =
     (case discard workerDiscard s \<lparr>Key = key, Offset = offset\<rparr> of
        (received, s') \<Rightarrow> (None, s'))"

section \<open>Mailbox, external-store variant (package redis)\<close>

text \<open>
  The reply of the store to \<open>Eval\<close>, as the client library hands it over: an
  \<open>interface{}\<close> holding a string, an integer, a list or nil.
\<close>

datatype redis_reply =
  ReplyString string | ReplyInt int | ReplyList "redis_reply list" | ReplyNil

text \<open>
  \<open>redisElement\<close>, \<open>core.Element\<close>, \<open>core.Elements\<close> and \<open>core.RetrieveRequest\<close> are
  declared outside the sources; their fields are the ones \<open>retrieve\<close> reads and writes.
  The field names carry a prefix because several of the structs share them.
\<close>

record redisElement =
  re_Offset :: "64 word"
  re_Type :: string
  re_Value :: string
  re_Set :: bool

record Element =
  el_Offset :: "64 word"
  el_Type :: string
  el_Value :: string

record Elements =
  els_Elements :: "Element list"
  els_Offset :: "64 word"

record RetrieveRequest =
  rq_Key :: string
  rq_Offset :: "64 word"
  rq_Count :: nat

text \<open>
  How \<open>retrieve\<close> can fail: the two errors it returns (their causes left out), and the
  panic of a failed type assertion \<open>els.([]interface{})\<close> or \<open>el.(string)\<close>.
\<close>

datatype retrieve_failure = ErrRedisExec go_error | ErrDeserialize | TypeAssertionPanic

text \<open>
  The body of \<open>for _, el := range els.([]interface{})\<close> with the loop variables \<open>res\<close>,
  \<open>offsetSet\<close> and \<open>offset\<close>. \<open>json.Unmarshal\<close> into a \<open>redisElement\<close> and into a
  string are the parameters \<open>unmarshalElement\<close> and \<open>unmarshalString\<close> (\<open>None\<close> when
  they return an error).
\<close>

fun retrieveLoop ::
  "(string \<Rightarrow> redisElement option) \<Rightarrow> (string \<Rightarrow> string option) \<Rightarrow> redis_reply list
     \<Rightarrow> Element list \<Rightarrow> bool \<Rightarrow> 64 word \<Rightarrow> retrieve_failure + Elements" where
  "retrieveLoop unmarshalElement unmarshalString [] res offsetSet offset =
     Inr \<lparr>els_Elements = res, els_Offset = offset\<rparr>"
| "retrieveLoop unmarshalElement unmarshalString (el # els) res offsetSet offset =
     (case el of
        ReplyString s \<Rightarrow>
          (case unmarshalElement s of
             None \<Rightarrow> Inl ErrDeserialize
           | Some decoded \<Rightarrow>
               if \<not> re_Set decoded then
                 retrieveLoop unmarshalElement unmarshalString els res True
                   (if \<not> offsetSet then re_Offset decoded else offset)
               else
                 (case unmarshalString (re_Value decoded) of
                    None \<Rightarrow> Inl ErrDeserialize
                  | Some v \<Rightarrow>
                      retrieveLoop unmarshalElement unmarshalString els
                        (res @ [\<lparr>el_Offset = re_Offset decoded, el_Type = re_Type decoded,
                                 el_Value = v\<rparr>])
                        True
                        (if \<not> offsetSet then re_Offset decoded else offset)))
      | _ \<Rightarrow> Inl TypeAssertionPanic)"

text \<open>
  \<open>func (m *MQueue) retrieve(ctx, req) (core.Elements, error)\<close>. The script runs in the
  store, so what \<open>m.exec\<close> returns for the request is the parameter \<open>exec\<close>.
\<close>

definition retrieve ::
  "(RetrieveRequest \<Rightarrow> go_error + redis_reply) \<Rightarrow> (string \<Rightarrow> redisElement option)
     \<Rightarrow> (string \<Rightarrow> string option) \<Rightarrow> RetrieveRequest \<Rightarrow> retrieve_failure + Elements" where
  "retrieve exec unmarshalElement unmarshalString req =
     (case exec req of
        Inl err \<Rightarrow> Inl (ErrRedisExec err)
      | Inr (ReplyList els) \<Rightarrow> retrieveLoop unmarshalElement unmarshalString els [] False 0
      | Inr _ \<Rightarrow> Inl TypeAssertionPanic)"

text \<open>The \<open>core.Element\<close> appended for a decoded entry whose value decodes.\<close>

definition toElement :: "(string \<Rightarrow> string option) \<Rightarrow> redisElement \<Rightarrow> Element" where
  "toElement unmarshalString decoded =
     \<lparr>el_Offset = re_Offset decoded, el_Type = re_Type decoded,
      el_Value = the (unmarshalString (re_Value decoded))\<rparr>"

section \<open>Wallet owner (backend/eth/client.go)\<close>

subsection \<open>Data\<close>

text \<open>
  The sentinel errors of package \<open>errors\<close> that \<open>client.go\<close> names, and the error
  \<open>errors.New(code, cause)\<close> built from one of them and a cause. The package is not
  among the sources: the description and the code of a sentinel, and the text that
  \<open>Error()\<close> gives for a built error, are therefore parameters (record \<open>deps\<close> below).
\<close>

datatype err_const =
  ErrEstimateGas | ErrSignedTx | ErrSendTransaction | ErrTransactionReceipt
  | ErrTransactionReceiptStatus | ErrFetchPendingNonce | ErrInvalidAddress

datatype errors_Err = errors_New err_const go_error

text \<open>\<open>common.Address\<close> of go-ethereum: 20 bytes.\<close>

type_synonym Address = "160 word"

record deps =
  Desc :: "err_const \<Rightarrow> string"
  Code :: "err_const \<Rightarrow> int"
  Error :: "errors_Err \<Rightarrow> string"
  HexToAddress :: "string \<Rightarrow> Address"
  Hex :: "Address \<Rightarrow> string"

text \<open>
  \<open>rpc.Error\<close> and the events that \<open>client.go\<close> builds. The error events of the
  attempts gate and of the failed refresh are written \<open>service.ErrorEvent\<close>, the others
  \<open>backend.ErrorEvent\<close>; both carry \<open>ID\<close> and \<open>Cause\<close> and are one constructor here.
\<close>

record rpc_Error =
  Description :: string
  ErrorCode :: int

datatype Event =
  ErrorEvent "64 word" rpc_Error
  | ExecuteServiceEvent "64 word" string

text \<open>
  \<open>backend.ExecuteServiceRequest{Data, Address, Key}\<close> and
  \<open>backend.DeployServiceRequest{Data, Key}\<close>, with the fields in this order.
\<close>

datatype backend_request =
  ExecuteServiceRequest string string string
  | DeployServiceRequest string string

text \<open>
  \<open>executeServiceRequest\<close> and \<open>deployServiceRequest\<close>, the two implementations of
  \<open>ethRequest\<close>: they differ in the type of \<open>Request\<close> only. \<open>Out\<close> names the reply
  channel of the request. \<open>Context\<close> is left out: cancellation is not modelled.
  \<open>Attempts\<close> is a Go \<open>uint\<close>; it is compared with 0 and 10 and incremented only in a
  task, which is started only below 10, so it is a \<open>nat\<close> here.
\<close>

record ethRequest =
  Attempts :: nat
  Out :: nat
  ID :: "64 word"
  Request :: backend_request

text \<open>
  go-ethereum's \<open>types.Transaction\<close>: the fields given to \<open>types.NewTransaction\<close> and
  \<open>types.NewContractCreation\<close>, and the signature that \<open>types.SignTx\<close> adds to a copy.
  A contract creation is a transaction without recipient.
\<close>

type_synonym Signature = "int \<times> int \<times> int"

record Transaction =
  tx_nonce :: "64 word"
  tx_to :: "Address option"
  tx_value :: int
  tx_gas :: "64 word"
  tx_gasPrice :: int
  tx_data :: string
  tx_sig :: "Signature option"

definition NewTransaction ::
  "64 word \<Rightarrow> Address \<Rightarrow> int \<Rightarrow> 64 word \<Rightarrow> int \<Rightarrow> string \<Rightarrow> Transaction" where
  "NewTransaction nonce to amount gasLimit price data =
     \<lparr>tx_nonce = nonce, tx_to = Some to, tx_value = amount, tx_gas = gasLimit,
      tx_gasPrice = price, tx_data = data, tx_sig = None\<rparr>"

definition NewContractCreation ::
  "64 word \<Rightarrow> int \<Rightarrow> 64 word \<Rightarrow> int \<Rightarrow> string \<Rightarrow> Transaction" where
  "NewContractCreation nonce amount gasLimit price data =
     \<lparr>tx_nonce = nonce, tx_to = None, tx_value = amount, tx_gas = gasLimit,
      tx_gasPrice = price, tx_data = data, tx_sig = None\<rparr>"

definition WithSignature :: "Transaction \<Rightarrow> Signature \<Rightarrow> Transaction" where
  "WithSignature tx sig = tx\<lparr>tx_sig := Some sig\<rparr>"

text \<open>\<open>ethereum.CallMsg\<close> and the fields of \<open>types.Receipt\<close> that are read.\<close>

record CallMsg =
  msg_From :: Address
  msg_To :: "Address option"
  msg_Gas :: "64 word"
  msg_GasPrice :: int
  msg_Value :: int
  msg_Data :: string

record Receipt =
  rc_Status :: "64 word"
  rc_ContractAddress :: Address

text \<open>
  What the backend and the signer answer while one request is executed: the results
  of \<open>EstimateGas\<close>, \<open>types.SignTx\<close> (with the client's signer and key),
  \<open>SendTransaction\<close> and \<open>TransactionReceipt\<close> (asked by the transaction's hash).
\<close>

record backend =
  EstimateGas :: "CallMsg \<Rightarrow> go_error + 64 word"
  SignTx :: "Transaction \<Rightarrow> go_error + Signature"
  SendTransaction :: "Transaction \<Rightarrow> go_error option"
  TransactionReceipt :: "Transaction \<Rightarrow> go_error + Receipt"

text \<open>
  The calls that leave the owner, in the order they are made. \<open>CallWalletOutOfFunds\<close>
  is the callback of the callback client (section 6 of the specification), with the
  address of its body; \<open>EthClient\<close> holds no callback client and none of its functions
  below makes this call. Logging is left out.
\<close>

datatype call =
  CallEstimateGas CallMsg
  | CallSignTx Transaction
  | CallSendTransaction Transaction
  | CallTransactionReceipt Transaction
  | CallPendingNonceAt Address
  | CallWalletOutOfFunds Address

fun isWalletOutOfFunds :: "call \<Rightarrow> bool" where
  "isWalletOutOfFunds (CallWalletOutOfFunds a) = True"
| "isWalletOutOfFunds _ = False"

fun signedTx :: "call \<Rightarrow> Transaction list" where
  "signedTx (CallSignTx tx) = [tx]"
| "signedTx _ = []"

fun submittedTx :: "call \<Rightarrow> Transaction list" where
  "submittedTx (CallSendTransaction tx) = [tx]"
| "submittedTx _ = []"

text \<open>
  The struct \<open>EthClient\<close> with the fields the request path uses: the inbound channel
  \<open>inCh\<close> (a queue; its capacity and its closing by \<open>Stop\<close> are not modelled), the
  wallet (by the address \<open>crypto.PubkeyToAddress\<close> derives from its key) and the nonce
  counter. Around it, what the running program holds: the tasks started with
  \<open>go func()\<close> in \<open>runTransaction\<close> that have not finished (each with the nonce and the
  request it captured), the events sent on reply channels (channel and event, in
  order), and the calls made so far.
\<close>

record EthClient =
  inCh :: "ethRequest list"
  wallet :: Address
  nonce :: "64 word"
  tasks :: "(64 word \<times> ethRequest) list"
  sent :: "(nat \<times> Event) list"
  calls :: "call list"

subsection \<open>Operations\<close>

definition gasPrice :: int where
  "gasPrice = 1000000000"

text \<open>\<open>strings.Contains(s, substr)\<close>\<close>

fun Contains :: "string \<Rightarrow> string \<Rightarrow> bool" where
  "Contains [] substr = (substr = [])"
| "Contains (ch # s) substr = (prefix substr (ch # s) \<or> Contains s substr)"

text \<open>\<open>func (c *EthClient) estimateGas(ctx, id, address, data) (uint64, error)\<close>\<close>

definition estimateGas ::
  "deps \<Rightarrow> backend \<Rightarrow> Address \<Rightarrow> string \<Rightarrow> string \<Rightarrow> (go_error + 64 word) \<times> call list" where
  "estimateGas d b w address data =
     (let msg = \<lparr>msg_From = w,
                 msg_To = (if length address > 0 then Some (HexToAddress d address) else None),
                 msg_Gas = 0, msg_GasPrice = gasPrice, msg_Value = 0, msg_Data = data\<rparr>
      in (EstimateGas b msg, [CallEstimateGas msg]))"

text \<open>
  \<open>func (c *EthClient) executeTransaction(ctx, nonce, id, address, data)
  (backend.Event, error)\<close>: the returned event or the returned error, and the calls made.
\<close>

definition executeTransaction ::
  "deps \<Rightarrow> backend \<Rightarrow> Address \<Rightarrow> 64 word \<Rightarrow> 64 word \<Rightarrow> string \<Rightarrow> string
     \<Rightarrow> (errors_Err + Event) \<times> call list" where
  "executeTransaction d b w nonce' id' address data =
     (case estimateGas d b w address data of
        (Inl err, cs1) \<Rightarrow>
          (Inr (ErrorEvent id' \<lparr>Description = Desc d ErrEstimateGas,
                                ErrorCode = Code d ErrEstimateGas\<rparr>), cs1)
      | (Inr gas, cs1) \<Rightarrow>
          (let tx = (if length address = 0
                     then NewContractCreation nonce' 0 gas gasPrice data
                     else NewTransaction nonce' (HexToAddress d address) 0 gas gasPrice data);
               cs2 = cs1 @ [CallSignTx tx]
           in case SignTx b tx of
                Inl err \<Rightarrow>
                  (Inr (ErrorEvent id' \<lparr>Description = Desc d ErrSignedTx,
                                        ErrorCode = Code d ErrSignedTx\<rparr>), cs2)
              | Inr sig \<Rightarrow>
                  (let stx = WithSignature tx sig;
                       cs3 = cs2 @ [CallSendTransaction stx]
                   in case SendTransaction b stx of
                        Some err \<Rightarrow> (Inl (errors_New ErrSendTransaction err), cs3)
                      | None \<Rightarrow>
                          (let cs4 = cs3 @ [CallTransactionReceipt stx]
                           in case TransactionReceipt b stx of
                                Inl err \<Rightarrow>
                                  (Inr (ErrorEvent id'
                                     \<lparr>Description = Desc d ErrTransactionReceipt,
                                      ErrorCode = Code d ErrTransactionReceipt\<rparr>), cs4)
                              | Inr receipt \<Rightarrow>
                                  if rc_Status receipt \<noteq> 1
                                  then (Inr (ErrorEvent id'
                                     \<lparr>Description = Desc d ErrTransactionReceiptStatus,
                                      ErrorCode = Code d ErrTransactionReceiptStatus\<rparr>), cs4)
                                  else (Inr (ExecuteServiceEvent id'
                                     (Hex d (rc_ContractAddress receipt))), cs4)))))"

text \<open>\<open>deployService\<close> and \<open>executeService\<close>\<close>

definition deployService ::
  "deps \<Rightarrow> backend \<Rightarrow> Address \<Rightarrow> 64 word \<Rightarrow> 64 word \<Rightarrow> string \<Rightarrow> (errors_Err + Event) \<times> call list"
  where
  "deployService d b w nonce' id' data = executeTransaction d b w nonce' id' [] data"

definition executeService ::
  "deps \<Rightarrow> backend \<Rightarrow> Address \<Rightarrow> 64 word \<Rightarrow> 64 word \<Rightarrow> string \<Rightarrow> string
     \<Rightarrow> (errors_Err + Event) \<times> call list" where
  "executeService d b w nonce' id' address data =
     executeTransaction d b w nonce' id' address data"

text \<open>
  The function that \<open>request\<close> passes to \<open>runTransaction\<close> as \<open>fn\<close>, chosen by the type
  of the request.
\<close>

definition fn ::
  "deps \<Rightarrow> backend \<Rightarrow> Address \<Rightarrow> 64 word \<Rightarrow> ethRequest \<Rightarrow> (errors_Err + Event) \<times> call list"
  where
  "fn d b w nonce' req =
     (case Request req of
        ExecuteServiceRequest data address key \<Rightarrow>
          executeService d b w nonce' (ID req) address data
      | DeployServiceRequest data key \<Rightarrow>
          deployService d b w nonce' (ID req) data)"

text \<open>
  \<open>func (c *EthClient) updateNonce(ctx) error\<close>: the loop
  \<open>for attempts := 0; attempts < 10; attempts++\<close>, entered at \<open>attempts\<close>.
  \<open>PendingNonceAt k\<close> is what the backend answers to the call made in round \<open>k\<close>;
  \<open>c.Nonce\<close> passes the wallet's address through \<open>Hex\<close> and \<open>HexToAddress\<close>.
\<close>

function updateNonceFrom ::
  "deps \<Rightarrow> (nat \<Rightarrow> go_error + 64 word) \<Rightarrow> nat \<Rightarrow> EthClient \<Rightarrow> go_error option \<times> EthClient"
  where
  "updateNonceFrom d PendingNonceAt attempts c =
     (if attempts < 10 then
        (let c' = c\<lparr>calls := calls c @ [CallPendingNonceAt (HexToAddress d (Hex d (wallet c)))]\<rparr>
         in case PendingNonceAt attempts of
              Inl err \<Rightarrow> updateNonceFrom d PendingNonceAt (attempts + 1) c'
            | Inr n \<Rightarrow> (None, if nonce c' < n then c'\<lparr>nonce := n\<rparr> else c'))
      else (Some (GoError ''exceeded attempts to update nonce''), c))"
  by pat_completeness auto
termination
  by (relation "measure (\<lambda>(d, PendingNonceAt, attempts, c). 10 - attempts)") auto

definition updateNonce ::
  "deps \<Rightarrow> (nat \<Rightarrow> go_error + 64 word) \<Rightarrow> EthClient \<Rightarrow> go_error option \<times> EthClient" where
  "updateNonce d PendingNonceAt c = updateNonceFrom d PendingNonceAt 0 c"

text \<open>
  \<open>func (c *EthClient) runTransaction(req, fn)\<close>, the part that the owner's loop runs
  itself: the attempts gate, the refresh of the nonce, the allocation of the nonce and
  the start of the task with \<open>go func()\<close>.
\<close>

definition runTransaction ::
  "deps \<Rightarrow> (nat \<Rightarrow> go_error + 64 word) \<Rightarrow> ethRequest \<Rightarrow> EthClient \<Rightarrow> EthClient" where
  "runTransaction d PendingNonceAt req c =
     (if Attempts req \<ge> 10 then
        c\<lparr>sent := sent c @ [(Out req, ErrorEvent (ID req)
              \<lparr>Description = ''failed to execute service'', ErrorCode = - 1\<rparr>)]\<rparr>
      else
        (case (if Attempts req > 0 then updateNonce d PendingNonceAt c else (None, c)) of
           (Some err, c') \<Rightarrow>
             c'\<lparr>sent := sent c' @ [(Out req, ErrorEvent (ID req)
                   \<lparr>Description = ''failed to update nonce'', ErrorCode = - 1\<rparr>)]\<rparr>
         | (None, c') \<Rightarrow>
             c'\<lparr>nonce := nonce c' + 1, tasks := tasks c' @ [(nonce c', req)]\<rparr>))"

text \<open>
  The task started by \<open>runTransaction\<close>, with the nonce and the request it captured:
  it runs \<open>fn\<close>; on an error whose text contains "nonce" it increments the attempts and
  sends the request on \<open>inCh\<close> again; on another error it sends an error event built
  from the error's text; otherwise it sends the event \<open>fn\<close> returned.
\<close>

definition task :: "deps \<Rightarrow> backend \<Rightarrow> 64 word \<times> ethRequest \<Rightarrow> EthClient \<Rightarrow> EthClient" where
  "task d b t c =
     (case t of (nonce', req) \<Rightarrow>
        (case fn d b (wallet c) nonce' req of
           (Inl err, cs) \<Rightarrow>
             if Contains (Error d err) ''nonce''
             then c\<lparr>calls := calls c @ cs,
                    inCh := inCh c @ [req\<lparr>Attempts := Attempts req + 1\<rparr>]\<rparr>
             else c\<lparr>calls := calls c @ cs,
                    sent := sent c @ [(Out req, ErrorEvent (ID req)
                      \<lparr>Description = Error d err, ErrorCode = - 1\<rparr>)]\<rparr>
         | (Inr event, cs) \<Rightarrow>
             c\<lparr>calls := calls c @ cs, sent := sent c @ [(Out req, event)]\<rparr>))"

text \<open>
  \<open>func (c *EthClient) request(req)\<close>: both request types go to \<open>runTransaction\<close>; the
  \<open>fn\<close> it is given is chosen in the task (see \<open>fn\<close>).
\<close>

definition request ::
  "deps \<Rightarrow> (nat \<Rightarrow> go_error + 64 word) \<Rightarrow> ethRequest \<Rightarrow> EthClient \<Rightarrow> EthClient" where
  "request d PendingNonceAt req c = runTransaction d PendingNonceAt req c"

text \<open>
  The running owner as a transition system. \<open>Enqueue\<close>: \<open>DeployService\<close>, or
  \<open>ExecuteService\<close> with a non-empty address, sends a new request on \<open>inCh\<close>; both
  build it with \<open>Attempts: 0\<close>. \<open>Receive\<close>: the loop of \<open>startLoop\<close> receives the next
  request from \<open>inCh\<close> and serves it (with the backend's answers to \<open>PendingNonceAt\<close>);
  it is not enabled on an empty channel. \<open>Finish i\<close>: the \<open>i\<close>-th running task runs to
  its end (with the backend's answers to it). A task is taken as one step, so the runs
  of the model are runs of the program in which tasks do not overlap each other's
  calls.
\<close>

datatype action =
  Enqueue ethRequest
  | Receive "nat \<Rightarrow> go_error + 64 word"
  | Finish nat backend

definition step :: "deps \<Rightarrow> action \<Rightarrow> EthClient \<Rightarrow> EthClient option" where
  "step d a c =
     (case a of
        Enqueue req \<Rightarrow>
          (if Attempts req = 0 then Some (c\<lparr>inCh := inCh c @ [req]\<rparr>) else None)
      | Receive PendingNonceAt \<Rightarrow>
          (case inCh c of
             [] \<Rightarrow> None
           | req # rest \<Rightarrow> Some (request d PendingNonceAt req (c\<lparr>inCh := rest\<rparr>)))
      | Finish i b \<Rightarrow>
          (if i < length (tasks c)
           then Some (task d b (tasks c ! i)
                        (c\<lparr>tasks := take i (tasks c) @ drop (Suc i) (tasks c)\<rparr>))
           else None))"

fun run :: "deps \<Rightarrow> action list \<Rightarrow> EthClient \<Rightarrow> EthClient option" where
  "run d [] c = Some c"
| "run d (a # as) c = (case step d a c of None \<Rightarrow> None | Some c' \<Rightarrow> run d as c')"

subsection \<open>Observations on runs\<close>

text \<open>
  \<open>isReceive\<close> tells the steps of the loop from the others, \<open>enqueuedBy\<close> gives the
  request a step enqueues, and \<open>isFinish\<close> tells the ends of tasks. \<open>retries\<close> counts
  the ends of tasks in a run after which \<open>inCh\<close> is longer than before: a task makes
  it grow only by sending its request on \<open>inCh\<close> again.
\<close>

fun isReceive :: "action \<Rightarrow> bool" where
  "isReceive (Receive P) = True"
| "isReceive _ = False"

fun isFinish :: "action \<Rightarrow> bool" where
  "isFinish (Finish i b) = True"
| "isFinish _ = False"

fun enqueuedBy :: "action \<Rightarrow> ethRequest list" where
  "enqueuedBy (Enqueue req) = [req]"
| "enqueuedBy _ = []"

fun retries :: "deps \<Rightarrow> action list \<Rightarrow> EthClient \<Rightarrow> nat" where
  "retries d [] c = 0"
| "retries d (a # as) c =
     (case step d a c of
        None \<Rightarrow> 0
      | Some c' \<Rightarrow>
          (if isFinish a \<and> length (inCh c') > length (inCh c) then 1 else 0)
          + retries d as c')"

subsection \<open>A sample environment\<close>

text \<open>
  Concrete values for the parameters, used to evaluate the definitions on concrete
  inputs: descriptions, codes, error texts and address conversions standing in for the
  packages that are not among the sources (an error's text is the message of its cause,
  a sentinel's text is its name), a backend on which every call succeeds, a deploy
  request, and an owner with nonce 0 and a given queue.
\<close>

definition sample_deps :: deps where
  "sample_deps =
     \<lparr>Desc = (\<lambda>k. ''Internal Error. Please check the status of the service.''),
      Code = (\<lambda>k. 1000),
      Error = (\<lambda>e. case e of
                 errors_New k (GoError msg) \<Rightarrow> msg
               | errors_New k ErrInvalidNonce \<Rightarrow> ''ErrInvalidNonce''
               | errors_New k ErrExceedsBalance \<Rightarrow> ''ErrExceedsBalance''),
      HexToAddress = (\<lambda>s. 0),
      Hex = (\<lambda>a. ''0x0000000000000000000000000000000000000000'')\<rparr>"

definition sample_backend :: backend where
  "sample_backend =
     \<lparr>EstimateGas = (\<lambda>m. Inr 21000),
      SignTx = (\<lambda>t. Inr (27, 1, 1)),
      SendTransaction = (\<lambda>t. None),
      TransactionReceipt = (\<lambda>t. Inr \<lparr>rc_Status = 1, rc_ContractAddress = 0\<rparr>)\<rparr>"

definition sample_request :: "nat \<Rightarrow> 64 word \<Rightarrow> ethRequest" where
  "sample_request attempts id' =
     \<lparr>Attempts = attempts, Out = unat id', ID = id',
      Request = DeployServiceRequest ''0x00'' ''key''\<rparr>"

definition sample_client :: "ethRequest list \<Rightarrow> EthClient" where
  "sample_client queue =
     \<lparr>inCh = queue, wallet = 0, nonce = 0, tasks = [], sent = [], calls = []\<rparr>"

section \<open>Wallet owner of package tx (from the specification)\<close>

text \<open>
  \<open>WalletOwner\<close> of package \<open>tx\<close> and its \<open>executeTransaction\<close> are not among the
  sources; the second part of \<open>client_test.go\<close> tests them with a mocked backend that
  answers \<open>SendTransaction\<close> with the sentinels \<open>eth.ErrInvalidNonce\<close> and
  \<open>eth.ErrExceedsBalance\<close>, and with a mocked callback client. The definitions of this
  section follow section 4.2 of the specification, step 5 of the execute/deploy
  algorithm. A request is an \<open>ethRequest\<close> as above (id, kind with address and data,
  reply channel, attempts).
\<close>

text \<open>
  Modelled from the spec: the codes of the error events of the wallet owner, which is
  not among the sources (sections 4.2 and 7). The description of a cause is left out.
\<close>

datatype owner_code =
  CodeExecuteFailed | CodeEstimateGas | CodeSignedTx | CodeSendTransaction | CodeOutOfFunds
  | CodeTransactionReceipt | CodeTransactionReceiptStatus

text \<open>
  Modelled from the spec: the events the wallet owner, which is not among the sources,
  emits (section 3): \<open>ErrorEvent{id, cause}\<close>, \<open>ExecuteServiceEvent{id, address,
  output}\<close> and \<open>DeployServiceEvent{id, address}\<close>.
\<close>

datatype owner_event =
  OwnerErrorEvent "64 word" owner_code
  | OwnerExecuteServiceEvent "64 word" string string
  | OwnerDeployServiceEvent "64 word" string

text \<open>
  Modelled from the spec: what the backend client used by the wallet owner (not among
  the sources) answers to \<open>SendTransaction\<close> (section 6): a response with status OK,
  output and hash, or an error, which is one of the sentinels \<open>InvalidNonce\<close> and
  \<open>ExceedsBalance\<close> or another error known by its string.
\<close>

datatype submission =
  Accepted string string
  | Rejected go_error

text \<open>
  Modelled from the spec: the state of a wallet owner, which is not among the sources
  (section 3): its inbound request queue, the address of its key pair and its nonce;
  and next to it the events emitted on reply channels and the calls made to the
  callback client, in order.
\<close>

record WalletOwner =
  wo_inCh :: "ethRequest list"
  wo_address :: Address
  wo_nonce :: "64 word"
  wo_sent :: "(nat \<times> owner_event) list"
  wo_calls :: "call list"

text \<open>
  Modelled from the spec: the decoding of the result of a submission by the wallet
  owner, whose \<open>executeTransaction\<close> is not among the sources (section 4.2, step 5).
  Status OK: the receipt is fetched (\<open>receipt\<close> is the backend's answer); a receipt
  status other than 1 gives the error event \<open>TransactionReceiptStatus\<close>, otherwise the
  typed success event is emitted, a deploy taking the address from the receipt. An
  error whose string contains "nonce", or the sentinel \<open>InvalidNonce\<close>: the attempts
  are incremented and the request is enqueued again. The sentinel \<open>ExceedsBalance\<close>:
  the \<open>WalletOutOfFunds\<close> callback is invoked with the owner's address and the error
  event \<open>OutOfFunds\<close> is emitted. Any other error: the error event \<open>SendTransaction\<close>.
  The sentinels are told by identity ("equals the sentinel"), the other errors by
  their string. A failed fetch of the receipt gives the error event
  \<open>TransactionReceipt\<close> (section 7).
\<close>

definition decodeSubmission ::
  "deps \<Rightarrow> submission \<Rightarrow> go_error + Receipt \<Rightarrow> ethRequest \<Rightarrow> WalletOwner \<Rightarrow> WalletOwner" where
  "decodeSubmission d res receipt req ow =
     (case res of
        Accepted output hash \<Rightarrow>
          (case receipt of
             Inl err \<Rightarrow>
               ow\<lparr>wo_sent := wo_sent ow @
                     [(Out req, OwnerErrorEvent (ID req) CodeTransactionReceipt)]\<rparr>
           | Inr rc \<Rightarrow>
               if rc_Status rc \<noteq> 1
               then ow\<lparr>wo_sent := wo_sent ow @
                     [(Out req, OwnerErrorEvent (ID req) CodeTransactionReceiptStatus)]\<rparr>
               else
                 (case Request req of
                    ExecuteServiceRequest data address key \<Rightarrow>
                      ow\<lparr>wo_sent := wo_sent ow @
                            [(Out req, OwnerExecuteServiceEvent (ID req) address output)]\<rparr>
                  | DeployServiceRequest data key \<Rightarrow>
                      ow\<lparr>wo_sent := wo_sent ow @
                            [(Out req, OwnerDeployServiceEvent (ID req)
                                (Hex d (rc_ContractAddress rc)))]\<rparr>))
      | Rejected err \<Rightarrow>
          (case err of
             ErrInvalidNonce \<Rightarrow>
               ow\<lparr>wo_inCh := wo_inCh ow @ [req\<lparr>Attempts := Attempts req + 1\<rparr>]\<rparr>
           | ErrExceedsBalance \<Rightarrow>
               ow\<lparr>wo_calls := wo_calls ow @ [CallWalletOutOfFunds (wo_address ow)],
                  wo_sent := wo_sent ow @
                    [(Out req, OwnerErrorEvent (ID req) CodeOutOfFunds)]\<rparr>
           | GoError msg \<Rightarrow>
               if Contains msg ''nonce''
               then ow\<lparr>wo_inCh := wo_inCh ow @ [req\<lparr>Attempts := Attempts req + 1\<rparr>]\<rparr>
               else ow\<lparr>wo_sent := wo_sent ow @
                     [(Out req, OwnerErrorEvent (ID req) CodeSendTransaction)]\<rparr>))"

text \<open>A wallet owner with an empty queue, for the evaluation on concrete inputs.\<close>

definition sample_owner :: "64 word \<Rightarrow> WalletOwner" where
  "sample_owner n =
     \<lparr>wo_inCh = [], wo_address = 0, wo_nonce = n, wo_sent = [], wo_calls = []\<rparr>"

section \<open>Verified properties\<close>

subsection \<open>Authentication plugins\<close>

text \<open>
  C9. For every non-empty data string and any two expected AAD values,
  \<open>InsecureAuth.Verify\<close> returns nil in both runs: the result does not depend on the
  expected AAD, no AAD comparison is made, and every non-empty payload is accepted.
\<close>

theorem InsecureAuth_Verify_ignores_expectedAAD:
  assumes "data \<noteq> []"
  shows "InsecureAuth_Verify data aad1 = None \<and> InsecureAuth_Verify data aad2 = None"
  using assms by (simp add: InsecureAuth_Verify_def)

theorem InsecureAuth_Verify_ignores_expectedAAD_witness:
  "''payload'' \<noteq> [] \<and> InsecureAuth_Verify ''payload'' ''expectedAAD'' = None
     \<and> InsecureAuth_Verify ''payload'' ''wrongAAD'' = None"
proof -
  have ne: "''payload'' \<noteq> []" by simp
  from InsecureAuth_Verify_ignores_expectedAAD [OF ne, of "''expectedAAD''" "''wrongAAD''"]
  show ?thesis by simp
qed

text \<open>
  C10. For every auth request whose API field equals "Deploy",
  \<open>GoogleOauth.Verify\<close> returns an error whatever the context holds, also when the
  request's AAD equals the expected AAD: the check comes before the AAD is looked up.
\<close>

theorem GoogleOauth_Verify_rejects_Deploy:
  assumes "API data = ''Deploy''"
  shows "GoogleOauth_Verify mustGetAAD ctx data =
           Returned (Some (GoError ''GoogleOauth cannot authorize a user to deploy a service''))"
  using assms by (simp add: GoogleOauth_Verify_def)

theorem GoogleOauth_Verify_rejects_Deploy_witness:
  "API \<lparr>API = ''Deploy'', AAD = ''test@email.com''\<rparr> = ''Deploy''
   \<and> GoogleOauth_Verify (\<lambda>ctx. Some ctx) ''test@email.com''
        \<lparr>API = ''Deploy'', AAD = ''test@email.com''\<rparr> =
       Returned (Some (GoError ''GoogleOauth cannot authorize a user to deploy a service''))"
proof -
  have h: "API \<lparr>API = ''Deploy'', AAD = ''test@email.com''\<rparr> = ''Deploy''" by simp
  from GoogleOauth_Verify_rejects_Deploy [OF h, of "\<lambda>ctx. Some ctx" "''test@email.com''"]
  show ?thesis by simp
qed

subsection \<open>Connection pool\<close>

text \<open>
  C5. If a dial fails during pool construction, \<open>DialFixedPool\<close> returns the error, and
  every connection established before is to be closed by then. With two connections
  asked for, the first dial succeeding (connection 7) and the second failing,
  \<open>DialFixedPool\<close> returns the error after calling \<open>cancel()\<close>; connection 7 has been
  handed to its loop and is not closed.
\<close>

theorem DialFixedPool_leaves_connection_open:
  "DialFixedPool (\<lambda>i. if i = 0 then Inr (7::nat) else Inl (GoError ''dial failed'')) 2 =
     (Some (GoError ''dial failed''),
      \<lparr>loops = [7], ctxCancelled = True, closedConns = []\<rparr>)"
  by (simp add: DialFixedPool_def dialConnection_def)

subsection \<open>Mailbox, in-memory variant\<close>

text \<open>
  C1. On a server without a queue for the key, the supervisor's \<open>discard\<close> sends the
  error "attempt to discard queue that does not exist" on the reply channel, but
  \<open>Server.Discard\<close> receives that value, drops it and returns nil to the caller.
\<close>

theorem Server_Discard_returns_nil_on_unknown_key:
  "fst (discard workerDiscard NewServer \<lparr>Key = key, Offset = offset\<rparr>) =
     Some (GoError ''attempt to discard queue that does not exist'')
   \<and> fst (Discard workerDiscard NewServer key offset) = None"
  by (simp add: discard_def Discard_def NewServer_def)

subsection \<open>Mailbox, external-store variant\<close>

text \<open>
  The loop over a reply whose entries all decode: the set entries are appended in
  order, and the offset is taken from the first entry unless it was taken before.
\<close>

lemma retrieveLoop_decoded:
  "map unmarshalElement blobs = map Some ds \<Longrightarrow>
   (\<forall>d \<in> set ds. re_Set d \<longrightarrow> unmarshalString (re_Value d) \<noteq> None) \<Longrightarrow>
   retrieveLoop unmarshalElement unmarshalString (map ReplyString blobs) res offsetSet offset =
     Inr \<lparr>els_Elements = res @ map (toElement unmarshalString) (filter re_Set ds),
          els_Offset = (if offsetSet \<or> ds = [] then offset else re_Offset (hd ds))\<rparr>"
proof (induction blobs arbitrary: ds res offsetSet offset)
  case Nil
  then show ?case by simp
next
  case (Cons b blobs)
  then obtain d ds' where ds: "ds = d # ds'" and b: "unmarshalElement b = Some d"
    and rest: "map unmarshalElement blobs = map Some ds'"
    by (cases ds) auto
  from Cons.prems(2) ds
  have vals: "\<forall>d \<in> set ds'. re_Set d \<longrightarrow> unmarshalString (re_Value d) \<noteq> None"
    and hd: "re_Set d \<longrightarrow> unmarshalString (re_Value d) \<noteq> None"
    by auto
  show ?case
  proof (cases "re_Set d")
    case False
    then show ?thesis
      using Cons.IH [OF rest vals] b ds by simp
  next
    case True
    with hd obtain v where v: "unmarshalString (re_Value d) = Some v" by auto
    then show ?thesis
      using Cons.IH [OF rest vals] b ds True by (simp add: toElement_def)
  qed
qed

text \<open>
  C8. When the script returns a non-empty list of encoded entries (each decoding to
  an entry of \<open>ds\<close>, the value of each set entry decoding to a string), \<open>retrieve\<close>
  returns exactly the set entries, in order, and the returned offset is the offset of
  the first entry of the list, set or not.
\<close>

theorem retrieve_filters_unset_and_keeps_first_offset:
  assumes "exec req = Inr (ReplyList (map ReplyString blobs))"
    and "blobs \<noteq> []"
    and "map unmarshalElement blobs = map Some ds"
    and "\<forall>d \<in> set ds. re_Set d \<longrightarrow> unmarshalString (re_Value d) \<noteq> None"
  shows "retrieve exec unmarshalElement unmarshalString req =
           Inr \<lparr>els_Elements = map (toElement unmarshalString) (filter re_Set ds),
                els_Offset = re_Offset (hd ds)\<rparr>"
proof -
  from assms(2,3) have "ds \<noteq> []" by auto
  with retrieveLoop_decoded [OF assms(3,4), of "[]" False 0] assms(1)
  show ?thesis by (simp add: retrieve_def)
qed

theorem retrieve_filters_unset_and_keeps_first_offset_witness:
  "retrieve (\<lambda>req. Inr (ReplyList [ReplyString ''a'', ReplyString ''b'']))
     (\<lambda>s. if s = ''a''
           then Some \<lparr>re_Offset = 5, re_Type = ''t'', re_Value = ''x'', re_Set = False\<rparr>
           else Some \<lparr>re_Offset = 6, re_Type = ''t'', re_Value = ''y'', re_Set = True\<rparr>)
     Some \<lparr>rq_Key = ''k'', rq_Offset = 5, rq_Count = 10\<rparr> =
   Inr \<lparr>els_Elements = [\<lparr>el_Offset = 6, el_Type = ''t'', el_Value = ''y''\<rparr>], els_Offset = 5\<rparr>"
proof -
  let ?uE = "\<lambda>s. if s = ''a''
           then Some \<lparr>re_Offset = 5, re_Type = ''t'', re_Value = ''x'', re_Set = False\<rparr>
           else Some \<lparr>re_Offset = 6::64 word, re_Type = ''t'', re_Value = ''y'', re_Set = True\<rparr>"
  let ?ds = "[\<lparr>re_Offset = 5, re_Type = ''t'', re_Value = ''x'', re_Set = False\<rparr>,
              \<lparr>re_Offset = 6::64 word, re_Type = ''t'', re_Value = ''y'', re_Set = True\<rparr>]"
  let ?exec = "\<lambda>req::RetrieveRequest. Inr (ReplyList [ReplyString ''a'', ReplyString ''b''])
                 :: go_error + redis_reply"
  have h1: "?exec \<lparr>rq_Key = ''k'', rq_Offset = 5, rq_Count = 10\<rparr> =
              Inr (ReplyList (map ReplyString [''a'', ''b'']))" by simp
  have h2: "[''a'', ''b''] \<noteq> []" by simp
  have h3: "map ?uE [''a'', ''b''] = map Some ?ds" by simp
  have h4: "\<forall>d \<in> set ?ds. re_Set d \<longrightarrow> Some (re_Value d) \<noteq> None" by simp
  from retrieve_filters_unset_and_keeps_first_offset [OF h1 h2 h3 h4]
  show ?thesis by (simp add: toElement_def)
qed

subsection \<open>Wallet owner\<close>

text \<open>
  C6. For every request that reaches the construction of the transaction (the gas
  estimate succeeded with \<open>gas\<close>), the one transaction handed to the signer has
  value 0, gas price 1000000000, the estimated gas, the allocated nonce and the
  request's data, and it is a contract creation (no recipient) exactly when the address
  is empty, a call to that address otherwise.
\<close>

theorem executeTransaction_constructs_transaction:
  assumes "fst (estimateGas d b w address data) = Inr gas"
  shows "concat (map signedTx (snd (executeTransaction d b w n i address data))) =
           [\<lparr>tx_nonce = n,
             tx_to = (if address = [] then None else Some (HexToAddress d address)),
             tx_value = 0, tx_gas = gas, tx_gasPrice = 1000000000, tx_data = data,
             tx_sig = None\<rparr>]"
  using assms
  by (simp add: executeTransaction_def estimateGas_def Let_def NewContractCreation_def
      NewTransaction_def gasPrice_def split: sum.splits option.splits)

theorem executeTransaction_constructs_transaction_witness:
  "concat (map signedTx (snd (executeTransaction sample_deps sample_backend 0 5 1 [] ''0x00''))) =
     [\<lparr>tx_nonce = 5, tx_to = None, tx_value = 0, tx_gas = 21000, tx_gasPrice = 1000000000,
       tx_data = ''0x00'', tx_sig = None\<rparr>]"
proof -
  have h: "fst (estimateGas sample_deps sample_backend 0 [] ''0x00'') = Inr 21000"
    by (simp add: estimateGas_def sample_backend_def)
  from executeTransaction_constructs_transaction [OF h, of 5 1]
  show ?thesis by simp
qed

text \<open>
  The only error that the execution of a request returns is the wrapped error of a
  failed submission; the submission is then the last call made.
\<close>

lemma executeTransaction_Inl:
  "fst (executeTransaction d b w n i address data) = Inl err \<Longrightarrow>
   \<exists>tx cause. SendTransaction b tx = Some cause \<and> err = errors_New ErrSendTransaction cause
     \<and> last (snd (executeTransaction d b w n i address data)) = CallSendTransaction tx"
  by (auto simp add: executeTransaction_def estimateGas_def Let_def split: sum.splits option.splits if_splits)

lemma fn_Inl:
  "fst (fn d b w n req) = Inl err \<Longrightarrow>
   \<exists>tx cause. SendTransaction b tx = Some cause \<and> err = errors_New ErrSendTransaction cause
     \<and> last (snd (fn d b w n req)) = CallSendTransaction tx"
  by (auto simp add: fn_def executeService_def deployService_def
      split: backend_request.splits dest: executeTransaction_Inl)

text \<open>
  C2. In \<open>EthClient\<close>: if the function run by a task returns an error whose text
  contains "nonce" (the only error it returns is the wrapped error of a failed
  submission), the task increments the attempts of the request and sends it on the
  owner's inbound channel again, and sends no event; a request that arrives with ten or
  more attempts gets exactly one error event (description "failed to execute service",
  code -1) on its reply channel, and no nonce is allocated, no task is started, nothing
  is sent on \<open>inCh\<close>. \<open>EthClient\<close> knows an error by its text only; in the wallet owner
  of the specification, a submission rejected with the sentinel \<open>InvalidNonce\<close>, or with
  another error whose string contains "nonce", increments the attempts and enqueues the
  request again, and emits nothing.
\<close>

theorem runTransaction_retries_nonce_errors_up_to_ten:
  "(fn d b (wallet c) n req = (Inl err, cs) \<and> Contains (Error d err) ''nonce'' \<longrightarrow>
      task d b (n, req) c =
        c\<lparr>calls := calls c @ cs, inCh := inCh c @ [req\<lparr>Attempts := Attempts req + 1\<rparr>]\<rparr>)
   \<and> (10 \<le> Attempts req \<longrightarrow>
        request d PendingNonceAt req c =
          c\<lparr>sent := sent c @ [(Out req, ErrorEvent (ID req)
               \<lparr>Description = ''failed to execute service'', ErrorCode = - 1\<rparr>)]\<rparr>)
   \<and> decodeSubmission d (Rejected ErrInvalidNonce) receipt req ow =
        ow\<lparr>wo_inCh := wo_inCh ow @ [req\<lparr>Attempts := Attempts req + 1\<rparr>]\<rparr>
   \<and> (Contains msg ''nonce'' \<longrightarrow>
        decodeSubmission d (Rejected (GoError msg)) receipt req ow =
          ow\<lparr>wo_inCh := wo_inCh ow @ [req\<lparr>Attempts := Attempts req + 1\<rparr>]\<rparr>)"
  by (simp add: task_def request_def runTransaction_def decodeSubmission_def)

theorem runTransaction_retries_nonce_errors_up_to_ten_witness:
  "inCh (task sample_deps
           (sample_backend\<lparr>SendTransaction := \<lambda>t. Some (GoError ''nonce too low'')\<rparr>)
           (0, sample_request 0 1) (sample_client [])) = [sample_request 1 1]
   \<and> sent (task sample_deps
           (sample_backend\<lparr>SendTransaction := \<lambda>t. Some (GoError ''nonce too low'')\<rparr>)
           (0, sample_request 0 1) (sample_client [])) = []
   \<and> request sample_deps (\<lambda>k. Inr 0) (sample_request 10 1) (sample_client []) =
       (sample_client [])\<lparr>sent := [(1, ErrorEvent 1
          \<lparr>Description = ''failed to execute service'', ErrorCode = - 1\<rparr>)]\<rparr>
   \<and> decodeSubmission sample_deps (Rejected (GoError ''nonce too low''))
       (Inl (GoError ''timeout'')) (sample_request 0 1) (sample_owner 0) =
       (sample_owner 0)\<lparr>wo_inCh := [sample_request 1 1]\<rparr>
   \<and> decodeSubmission sample_deps (Rejected ErrInvalidNonce)
       (Inl (GoError ''timeout'')) (sample_request 0 1) (sample_owner 0) =
       (sample_owner 0)\<lparr>wo_inCh := [sample_request 1 1]\<rparr>"
proof -
  let ?b = "sample_backend\<lparr>SendTransaction := \<lambda>t. Some (GoError ''nonce too low'')\<rparr>"
  obtain cs where f: "fn sample_deps ?b (wallet (sample_client [])) 0 (sample_request 0 1) =
      (Inl (errors_New ErrSendTransaction (GoError ''nonce too low'')), cs)"
    by (simp add: fn_def deployService_def executeTransaction_def estimateGas_def
        sample_backend_def sample_request_def Let_def)
  have t: "Contains (Error sample_deps (errors_New ErrSendTransaction (GoError ''nonce too low'')))
             ''nonce''"
    by (simp add: sample_deps_def)
  have a10: "10 \<le> Attempts (sample_request 10 1)" by (simp add: sample_request_def)
  from runTransaction_retries_nonce_errors_up_to_ten
         [of sample_deps ?b "sample_client []" 0 "sample_request 0 1" _ cs] f t
  have 1: "task sample_deps ?b (0, sample_request 0 1) (sample_client []) =
         (sample_client [])\<lparr>calls := calls (sample_client []) @ cs,
            inCh := inCh (sample_client []) @
              [(sample_request 0 1)\<lparr>Attempts := Attempts (sample_request 0 1) + 1\<rparr>]\<rparr>"
    by blast
  from runTransaction_retries_nonce_errors_up_to_ten
         [of sample_deps _ "sample_client []" _ "sample_request 10 1" _ _ "\<lambda>k. Inr 0"] a10
  have 2: "request sample_deps (\<lambda>k. Inr 0) (sample_request 10 1) (sample_client []) =
          (sample_client [])\<lparr>sent := sent (sample_client []) @ [(Out (sample_request 10 1),
             ErrorEvent (ID (sample_request 10 1))
               \<lparr>Description = ''failed to execute service'', ErrorCode = - 1\<rparr>)]\<rparr>"
    by blast
  have n: "Contains ''nonce too low'' ''nonce''" by simp
  from runTransaction_retries_nonce_errors_up_to_ten
         [of sample_deps _ _ _ "sample_request 0 1" _ _ _ "Inl (GoError ''timeout'')"
            "sample_owner 0" "''nonce too low''"] n
  have 3: "decodeSubmission sample_deps (Rejected (GoError ''nonce too low''))
             (Inl (GoError ''timeout'')) (sample_request 0 1) (sample_owner 0) =
           (sample_owner 0)\<lparr>wo_inCh := wo_inCh (sample_owner 0) @
              [(sample_request 0 1)\<lparr>Attempts := Attempts (sample_request 0 1) + 1\<rparr>]\<rparr>"
    and 4: "decodeSubmission sample_deps (Rejected ErrInvalidNonce)
             (Inl (GoError ''timeout'')) (sample_request 0 1) (sample_owner 0) =
           (sample_owner 0)\<lparr>wo_inCh := wo_inCh (sample_owner 0) @
              [(sample_request 0 1)\<lparr>Attempts := Attempts (sample_request 0 1) + 1\<rparr>]\<rparr>"
    by blast+
  from 1 2 3 4 show ?thesis
    by (simp add: sample_client_def sample_request_def sample_owner_def)
qed

text \<open>
  The attempts stay bounded in every run: when the queued requests have at most ten
  attempts and the running tasks fewer than ten, this holds after every step, since a
  task is started only below ten attempts and adds one. The requests that
  \<open>DeployService\<close> and \<open>ExecuteService\<close> enqueue start at 0.
\<close>

lemma updateNonceFrom_frame:
  "inCh (snd (updateNonceFrom d P k c)) = inCh c \<and> tasks (snd (updateNonceFrom d P k c)) = tasks c"
proof (induction d P k c rule: updateNonceFrom.induct)
  case (1 d P attempts c)
  show ?case
  proof (cases "attempts < 10")
    case False
    then show ?thesis by simp
  next
    case True
    let ?c' = "c\<lparr>calls := calls c @ [CallPendingNonceAt (HexToAddress d (Hex d (wallet c)))]\<rparr>"
    show ?thesis
    proof (cases "P attempts")
      case (Inl err)
      with True have "updateNonceFrom d P attempts c = updateNonceFrom d P (attempts + 1) ?c'"
        by (subst updateNonceFrom.simps) simp
      with "1.IH" [OF True refl Inl] show ?thesis by simp
    next
      case (Inr n)
      with True have "updateNonceFrom d P attempts c =
          (None, if nonce ?c' < n then ?c'\<lparr>nonce := n\<rparr> else ?c')"
        by (subst updateNonceFrom.simps) simp
      then show ?thesis by simp
    qed
  qed
qed

lemma step_attempts_bounded:
  assumes "step d a c = Some c'"
    and "\<forall>r \<in> set (inCh c). Attempts r \<le> 10"
    and "\<forall>t \<in> set (tasks c). Attempts (snd t) < 10"
  shows "(\<forall>r \<in> set (inCh c'). Attempts r \<le> 10) \<and> (\<forall>t \<in> set (tasks c'). Attempts (snd t) < 10)"
proof (cases a)
  case (Enqueue r)
  with assms show ?thesis by (auto simp add: step_def split: if_splits)
next
  case (Receive P)
  with assms(1) obtain r rest where q: "inCh c = r # rest"
    and c': "c' = runTransaction d P r (c\<lparr>inCh := rest\<rparr>)"
    by (auto simp add: step_def request_def split: list.splits)
  from updateNonceFrom_frame [of d P 0 "c\<lparr>inCh := rest\<rparr>"]
  have fr: "inCh (snd (updateNonce d P (c\<lparr>inCh := rest\<rparr>))) = rest"
    "tasks (snd (updateNonce d P (c\<lparr>inCh := rest\<rparr>))) = tasks c"
    by (simp_all add: updateNonce_def)
  have "inCh c' = rest \<and> (tasks c' = tasks c \<or> (Attempts r < 10 \<and> (\<exists>n. tasks c' = tasks c @ [(n, r)])))"
    using fr unfolding c' runTransaction_def
    by (cases "updateNonce d P (c\<lparr>inCh := rest\<rparr>)") (auto split: option.splits)
  with assms(2,3) q show ?thesis by auto
next
  case (Finish i b)
  with assms(1) have i: "i < length (tasks c)"
    and c': "c' = task d b (tasks c ! i) (c\<lparr>tasks := take i (tasks c) @ drop (Suc i) (tasks c)\<rparr>)"
    by (auto simp add: step_def split: if_splits)
  obtain n r where t: "tasks c ! i = (n, r)" by (cases "tasks c ! i")
  with i assms(3) have r: "Attempts r < 10" by (metis nth_mem snd_conv)
  have sub: "set (take i (tasks c) @ drop (Suc i) (tasks c)) \<subseteq> set (tasks c)"
    by (auto dest: in_set_takeD in_set_dropD)
  have "tasks c' = take i (tasks c) @ drop (Suc i) (tasks c)
      \<and> (inCh c' = inCh c \<or> inCh c' = inCh c @ [r\<lparr>Attempts := Attempts r + 1\<rparr>])"
    unfolding c' t task_def by (simp split: prod.splits sum.splits)
  with assms(2,3) r sub show ?thesis by auto
qed

lemma run_attempts_bounded:
  "run d as c = Some s \<Longrightarrow> \<forall>r \<in> set (inCh c). Attempts r \<le> 10 \<Longrightarrow>
   \<forall>t \<in> set (tasks c). Attempts (snd t) < 10 \<Longrightarrow>
   (\<forall>r \<in> set (inCh s). Attempts r \<le> 10) \<and> (\<forall>t \<in> set (tasks s). Attempts (snd t) < 10)"
proof (induction as arbitrary: c)
  case Nil
  then show ?case by simp
next
  case (Cons a as)
  from Cons.prems(1) obtain c1 where st: "step d a c = Some c1" and rn: "run d as c1 = Some s"
    by (auto split: option.splits)
  from step_attempts_bounded [OF st Cons.prems(2,3)] Cons.IH [OF rn] show ?case by blast
qed

text \<open>
  C3. In the wallet owner of the specification, for every execute/deploy request whose
  submission is rejected with the sentinel \<open>ExceedsBalance\<close>: the \<open>WalletOutOfFunds\<close>
  callback is invoked exactly once, with the owner's address; exactly one event is
  emitted on the request's reply channel, an error event with the request's id and the
  code \<open>OutOfFunds\<close>; and the request is not enqueued again.
\<close>

theorem decodeSubmission_ExceedsBalance_fires_callback_once:
  "decodeSubmission d (Rejected ErrExceedsBalance) receipt req ow =
     ow\<lparr>wo_calls := wo_calls ow @ [CallWalletOutOfFunds (wo_address ow)],
        wo_sent := wo_sent ow @ [(Out req, OwnerErrorEvent (ID req) CodeOutOfFunds)]\<rparr>
   \<and> filter isWalletOutOfFunds
        (wo_calls (decodeSubmission d (Rejected ErrExceedsBalance) receipt req ow)) =
      filter isWalletOutOfFunds (wo_calls ow) @ [CallWalletOutOfFunds (wo_address ow)]
   \<and> wo_inCh (decodeSubmission d (Rejected ErrExceedsBalance) receipt req ow) = wo_inCh ow"
  by (simp add: decodeSubmission_def)

text \<open>
  The refresh of the nonce: when every answer from round \<open>attempts\<close> on is an error,
  all remaining rounds are used and the error is returned; when round \<open>k\<close> is the first
  to succeed, the counter becomes the maximum of its value and the remote nonce.
\<close>

lemma updateNonceFrom_all_fail:
  "attempts \<le> 10 \<Longrightarrow> (\<forall>j. attempts \<le> j \<and> j < 10 \<longrightarrow> isl (P j)) \<Longrightarrow>
   updateNonceFrom d P attempts c =
     (Some (GoError ''exceeded attempts to update nonce''),
      c\<lparr>calls := calls c @
           replicate (10 - attempts) (CallPendingNonceAt (HexToAddress d (Hex d (wallet c))))\<rparr>)"
proof (induction d P attempts c rule: updateNonceFrom.induct)
  case (1 d P attempts c)
  show ?case
  proof (cases "attempts < 10")
    case False
    with "1.prems" show ?thesis by simp
  next
    case True
    with "1.prems" obtain err where e: "P attempts = Inl err"
      by (cases "P attempts") auto
    have r: "replicate (10 - attempts) x = x # replicate (10 - (attempts + 1)) x" for x :: call
      using True by (cases "10 - attempts") auto
    from "1.IH" [OF True refl e] True "1.prems" e
    show ?thesis by (subst updateNonceFrom.simps) (simp add: r)
  qed
qed

lemma updateNonceFrom_first_success:
  "attempts \<le> k \<Longrightarrow> k < 10 \<Longrightarrow> (\<forall>j. attempts \<le> j \<and> j < k \<longrightarrow> isl (P j)) \<Longrightarrow>
   P k = Inr remote \<Longrightarrow>
   updateNonceFrom d P attempts c =
     (None,
      c\<lparr>calls := calls c @
           replicate (Suc k - attempts) (CallPendingNonceAt (HexToAddress d (Hex d (wallet c)))),
        nonce := max (nonce c) remote\<rparr>)"
proof (induction d P attempts c rule: updateNonceFrom.induct)
  case (1 d P attempts c)
  from "1.prems" have lt: "attempts < 10" by simp
  show ?case
  proof (cases "attempts = k")
    case True
    have m: "(if nonce c < remote then c'\<lparr>nonce := remote\<rparr> else c') = c'\<lparr>nonce := max (nonce c) remote\<rparr>"
      if "nonce c' = nonce c" for c' :: EthClient
      using that by (cases "nonce c < remote") (auto simp add: max_def not_less)
    from True "1.prems" lt show ?thesis
      by (subst updateNonceFrom.simps) (simp add: Let_def m)
  next
    case False
    with "1.prems" have less: "attempts < k" by simp
    with "1.prems" obtain err where e: "P attempts = Inl err"
      by (cases "P attempts") auto
    have r: "replicate (Suc k - attempts) x = x # replicate (Suc k - (attempts + 1)) x" for x :: call
      using less by (cases "Suc k - attempts") auto
    from less "1.prems" have "attempts + 1 \<le> k" "\<forall>j. attempts + 1 \<le> j \<and> j < k \<longrightarrow> isl (P j)"
      by auto
    from "1.IH" [OF lt refl e this(1) "1.prems"(2) this(2) "1.prems"(4)] lt e
    show ?thesis by (subst updateNonceFrom.simps) (simp add: r)
  qed
qed

text \<open>
  C7. For every request with attempts above 0: if it has fewer than ten attempts and
  round \<open>k\<close> (below 10) is the first whose answer is not an error, the owner has asked
  the backend \<open>k + 1\<close> times, allocates the maximum of its counter and the remote nonce,
  and leaves the counter one above it; if the answers of all ten rounds are errors, the
  request ends with an error event and no task is started; and whenever a task is
  started, a successful refresh came before.
\<close>

theorem runTransaction_refreshes_nonce_before_retry:
  assumes "0 < Attempts req"
  shows
    "(Attempts req < 10 \<and> k < 10 \<and> (\<forall>j<k. isl (P j)) \<and> P k = Inr remote \<longrightarrow>
        runTransaction d P req c =
          c\<lparr>calls := calls c @
                 replicate (Suc k) (CallPendingNonceAt (HexToAddress d (Hex d (wallet c)))),
            nonce := max (nonce c) remote + 1,
            tasks := tasks c @ [(max (nonce c) remote, req)]\<rparr>)
     \<and> ((\<forall>j<10. isl (P j)) \<longrightarrow>
        runTransaction d P req c =
          (if Attempts req < 10
           then c\<lparr>calls := calls c @
                    replicate 10 (CallPendingNonceAt (HexToAddress d (Hex d (wallet c)))),
                  sent := sent c @ [(Out req, ErrorEvent (ID req)
                    \<lparr>Description = ''failed to update nonce'', ErrorCode = - 1\<rparr>)]\<rparr>
           else c\<lparr>sent := sent c @ [(Out req, ErrorEvent (ID req)
                    \<lparr>Description = ''failed to execute service'', ErrorCode = - 1\<rparr>)]\<rparr>))
     \<and> (tasks (runTransaction d P req c) \<noteq> tasks c \<longrightarrow>
        (\<exists>k<10. \<exists>remote. (\<forall>j<k. isl (P j)) \<and> P k = Inr remote))"
proof (intro conjI impI)
  assume h: "Attempts req < 10 \<and> k < 10 \<and> (\<forall>j<k. isl (P j)) \<and> P k = Inr remote"
  then have "updateNonceFrom d P 0 c =
     (None,
      c\<lparr>calls := calls c @
           replicate (Suc k - 0) (CallPendingNonceAt (HexToAddress d (Hex d (wallet c)))),
        nonce := max (nonce c) remote\<rparr>)"
    by (intro updateNonceFrom_first_success) auto
  with h assms show "runTransaction d P req c =
          c\<lparr>calls := calls c @
                 replicate (Suc k) (CallPendingNonceAt (HexToAddress d (Hex d (wallet c)))),
            nonce := max (nonce c) remote + 1,
            tasks := tasks c @ [(max (nonce c) remote, req)]\<rparr>"
    by (simp add: runTransaction_def updateNonce_def)
next
  assume h: "\<forall>j<10. isl (P j)"
  then have "updateNonceFrom d P 0 c =
     (Some (GoError ''exceeded attempts to update nonce''),
      c\<lparr>calls := calls c @
           replicate (10 - 0) (CallPendingNonceAt (HexToAddress d (Hex d (wallet c))))\<rparr>)"
    by (intro updateNonceFrom_all_fail) auto
  with assms show "runTransaction d P req c =
          (if Attempts req < 10
           then c\<lparr>calls := calls c @
                    replicate 10 (CallPendingNonceAt (HexToAddress d (Hex d (wallet c)))),
                  sent := sent c @ [(Out req, ErrorEvent (ID req)
                    \<lparr>Description = ''failed to update nonce'', ErrorCode = - 1\<rparr>)]\<rparr>
           else c\<lparr>sent := sent c @ [(Out req, ErrorEvent (ID req)
                    \<lparr>Description = ''failed to execute service'', ErrorCode = - 1\<rparr>)]\<rparr>)"
    by (simp add: runTransaction_def updateNonce_def)
next
  assume changed: "tasks (runTransaction d P req c) \<noteq> tasks c"
  show "\<exists>k<10. \<exists>remote. (\<forall>j<k. isl (P j)) \<and> P k = Inr remote"
  proof (rule ccontr)
    assume none: "\<not> (\<exists>k<10. \<exists>remote. (\<forall>j<k. isl (P j)) \<and> P k = Inr remote)"
    have all: "isl (P j)" if "j < 10" for j
      using that
    proof (induction j rule: less_induct)
      case (less j)
      then have "\<forall>i<j. isl (P i)" by simp
      with none less.prems have "\<forall>remote. P j \<noteq> Inr remote" by blast
      then show ?case by (cases "P j") auto
    qed
    then have "updateNonceFrom d P 0 c =
       (Some (GoError ''exceeded attempts to update nonce''),
        c\<lparr>calls := calls c @
             replicate (10 - 0) (CallPendingNonceAt (HexToAddress d (Hex d (wallet c))))\<rparr>)"
      by (intro updateNonceFrom_all_fail) auto
    with assms have "tasks (runTransaction d P req c) = tasks c"
      by (simp add: runTransaction_def updateNonce_def)
    with changed show False by simp
  qed
qed

theorem runTransaction_refreshes_nonce_before_retry_witness:
  "runTransaction sample_deps (\<lambda>k. if k < 2 then Inl (GoError ''timeout'') else Inr 7)
     (sample_request 1 1) (sample_client []) =
     (sample_client [])\<lparr>calls := replicate 3 (CallPendingNonceAt 0), nonce := 8,
        tasks := [(7, sample_request 1 1)]\<rparr>
   \<and> runTransaction sample_deps (\<lambda>k. Inl (GoError ''timeout'')) (sample_request 1 1)
       (sample_client []) =
     (sample_client [])\<lparr>calls := replicate 10 (CallPendingNonceAt 0),
        sent := [(1, ErrorEvent 1
          \<lparr>Description = ''failed to update nonce'', ErrorCode = - 1\<rparr>)]\<rparr>"
proof -
  have a: "0 < Attempts (sample_request 1 1)" by (simp add: sample_request_def)
  let ?P = "\<lambda>k::nat. if k < 2 then Inl (GoError ''timeout'') else (Inr 7 :: go_error + 64 word)"
  from runTransaction_refreshes_nonce_before_retry [OF a, of 2 ?P 7 sample_deps "sample_client []"]
  have 1: "runTransaction sample_deps ?P (sample_request 1 1) (sample_client []) =
          (sample_client [])\<lparr>calls := calls (sample_client []) @
                 replicate (Suc 2) (CallPendingNonceAt
                   (HexToAddress sample_deps (Hex sample_deps (wallet (sample_client []))))),
            nonce := max (nonce (sample_client [])) 7 + 1,
            tasks := tasks (sample_client []) @ [(max (nonce (sample_client [])) 7, sample_request 1 1)]\<rparr>"
    by (simp add: sample_request_def)
  let ?Q = "\<lambda>k::nat. Inl (GoError ''timeout'') :: go_error + 64 word"
  from runTransaction_refreshes_nonce_before_retry [OF a, of _ ?Q _ sample_deps "sample_client []"]
  have 2: "runTransaction sample_deps ?Q (sample_request 1 1) (sample_client []) =
          (sample_client [])\<lparr>calls := calls (sample_client []) @
                    replicate 10 (CallPendingNonceAt
                      (HexToAddress sample_deps (Hex sample_deps (wallet (sample_client []))))),
                  sent := sent (sample_client []) @ [(Out (sample_request 1 1),
                    ErrorEvent (ID (sample_request 1 1))
                    \<lparr>Description = ''failed to update nonce'', ErrorCode = - 1\<rparr>)]\<rparr>"
    by (simp add: sample_request_def)
  from 1 2 show ?thesis
    by (simp add: sample_client_def sample_request_def sample_deps_def max_def)
qed

text \<open>
  Steps of a run that does not retry: a task changes neither the nonce counter nor the
  running tasks of other requests, and a first attempt is given the counter's value.
\<close>

lemma task_frame:
  "nonce (task d b t c) = nonce c \<and> tasks (task d b t c) = tasks c
   \<and> (inCh (task d b t c) = inCh c \<or> length (inCh (task d b t c)) > length (inCh c))"
  by (simp add: task_def split: prod.splits sum.splits)

lemma receive_first_attempt:
  "Attempts r = 0 \<Longrightarrow>
   request d P r c = c\<lparr>nonce := nonce c + 1, tasks := tasks c @ [(nonce c, r)]\<rparr>"
  by (simp add: request_def runTransaction_def)

lemma run_without_retry:
  "run d as c = Some s \<Longrightarrow> retries d as c = 0 \<Longrightarrow> \<forall>r \<in> set (inCh c). Attempts r = 0 \<Longrightarrow>
   length (filter isReceive as) \<le> length (inCh c @ concat (map enqueuedBy as))
   \<and> inCh s = drop (length (filter isReceive as)) (inCh c @ concat (map enqueuedBy as))
   \<and> nonce s = nonce c + of_nat (length (filter isReceive as))
   \<and> (\<forall>r \<in> set (concat (map enqueuedBy as)). Attempts r = 0)"
proof (induction as arbitrary: c)
  case Nil
  then show ?case by simp
next
  case (Cons a as)
  from Cons.prems(1) obtain c1 where st: "step d a c = Some c1" and rn: "run d as c1 = Some s"
    by (auto split: option.splits)
  from Cons.prems(2) st have nogrow: "isFinish a \<longrightarrow> \<not> length (inCh c1) > length (inCh c)"
    and rt: "retries d as c1 = 0"
    by (auto split: if_splits)
  show ?case
  proof (cases a)
    case (Enqueue r)
    with st have r0: "Attempts r = 0" and c1: "c1 = c\<lparr>inCh := inCh c @ [r]\<rparr>"
      by (auto simp add: step_def split: if_splits)
    from c1 r0 Cons.prems(3) have all0: "\<forall>r \<in> set (inCh c1). Attempts r = 0" by auto
    from Cons.IH [OF rn rt all0] c1 r0 Enqueue show ?thesis by simp
  next
    case (Receive P)
    with st obtain r rest where q: "inCh c = r # rest"
      and c1: "c1 = request d P r (c\<lparr>inCh := rest\<rparr>)"
      by (auto simp add: step_def split: list.splits)
    from q Cons.prems(3) have r0: "Attempts r = 0" and rest0: "\<forall>r \<in> set rest. Attempts r = 0"
      by auto
    from c1 r0 have c1': "inCh c1 = rest" "nonce c1 = nonce c + 1"
      by (simp_all add: receive_first_attempt)
    from Cons.IH [OF rn rt] rest0 c1'
    have "length (filter isReceive as) \<le> length (rest @ concat (map enqueuedBy as))
      \<and> inCh s = drop (length (filter isReceive as)) (rest @ concat (map enqueuedBy as))
      \<and> nonce s = nonce c + 1 + of_nat (length (filter isReceive as))
      \<and> (\<forall>r \<in> set (concat (map enqueuedBy as)). Attempts r = 0)"
      by simp
    with Receive q show ?thesis by simp
  next
    case (Finish i b)
    with st have c1: "c1 = task d b (tasks c ! i)
                        (c\<lparr>tasks := take i (tasks c) @ drop (Suc i) (tasks c)\<rparr>)"
      by (auto simp add: step_def split: if_splits)
    from task_frame [of d b "tasks c ! i" "c\<lparr>tasks := take i (tasks c) @ drop (Suc i) (tasks c)\<rparr>"]
      c1 nogrow Finish
    have same: "inCh c1 = inCh c" "nonce c1 = nonce c" by auto
    from Cons.IH [OF rn rt] same Cons.prems(3) Finish show ?thesis by simp
  qed
qed

text \<open>
  C4, as amended. In every run of the owner without a retry, from a queue of first
  attempts: the loop receives the requests one at a time in the order they were
  enqueued, and the \<open>j\<close>-th receive (counting from 0) starts a task for the \<open>j\<close>-th
  enqueued request with the nonce \<open>initial + j\<close>. Signing and submission happen in the
  started tasks, which the loop does not wait for.
\<close>

theorem receive_allocates_nonces_in_enqueue_order:
  assumes "run d as c = Some s"
    and "retries d as c = 0"
    and "\<forall>r \<in> set (inCh c). Attempts r = 0"
    and "step d (Receive P) s = Some s'"
  shows "length (filter isReceive as) < length (inCh c @ concat (map enqueuedBy as))
     \<and> tasks s' = tasks s @ [(nonce c + of_nat (length (filter isReceive as)),
                              (inCh c @ concat (map enqueuedBy as)) ! length (filter isReceive as))]
     \<and> nonce s' = nonce c + of_nat (length (filter isReceive as)) + 1
     \<and> inCh s' = drop (Suc (length (filter isReceive as))) (inCh c @ concat (map enqueuedBy as))"
proof -
  let ?j = "length (filter isReceive as)"
  let ?q = "inCh c @ concat (map enqueuedBy as)"
  from run_without_retry [OF assms(1-3)]
  have le: "?j \<le> length ?q" and q: "inCh s = drop ?j ?q"
    and n: "nonce s = nonce c + of_nat ?j"
    and e0: "\<forall>r \<in> set (concat (map enqueuedBy as)). Attempts r = 0" by auto
  from assms(4) obtain r rest where rr: "inCh s = r # rest"
    and s': "s' = request d P r (s\<lparr>inCh := rest\<rparr>)"
    by (auto simp add: step_def split: list.splits)
  from rr q le have lt: "?j < length ?q"
    by (cases "?j = length ?q") auto
  from rr q lt have r: "r = ?q ! ?j" and rest: "rest = drop (Suc ?j) ?q"
    by (simp_all add: Cons_nth_drop_Suc [symmetric] del: drop_append nth_append)
  from assms(3) e0 have "\<forall>r \<in> set ?q. Attempts r = 0" by auto
  with lt r have "Attempts r = 0" by (metis nth_mem)
  with s' have "s' = s\<lparr>inCh := rest, nonce := nonce s + 1, tasks := tasks s @ [(nonce s, r)]\<rparr>"
    by (simp add: receive_first_attempt)
  with lt n r rest show ?thesis by simp
qed

lemma run_append:
  "run d (as @ bs) c = (case run d as c of None \<Rightarrow> None | Some s \<Rightarrow> run d bs s)"
  by (induction as arbitrary: c) (simp_all split: option.splits)

theorem receive_allocates_nonces_in_enqueue_order_witness:
  "map_option tasks
     (run sample_deps
        [Enqueue (sample_request 0 1), Receive (\<lambda>k. Inr 0), Enqueue (sample_request 0 2),
         Finish 0 sample_backend, Receive (\<lambda>k. Inr 0)]
        (sample_client [])) =
   Some [(1, sample_request 0 2)]"
proof -
  let ?c = "sample_client []"
  let ?as = "[Enqueue (sample_request 0 1), Receive (\<lambda>k. Inr 0), Enqueue (sample_request 0 2),
              Finish 0 sample_backend]"
  obtain s where s: "run sample_deps ?as ?c = Some s" and ts: "tasks s = []"
    and q: "inCh s = [sample_request 0 2]"
    by (simp add: step_def request_def runTransaction_def task_def fn_def deployService_def
      executeTransaction_def estimateGas_def Let_def sample_client_def sample_request_def
      sample_backend_def sample_deps_def)
  have nr: "retries sample_deps ?as ?c = 0"
    by (simp add: step_def request_def runTransaction_def task_def fn_def deployService_def
      executeTransaction_def estimateGas_def Let_def sample_client_def sample_request_def
      sample_backend_def sample_deps_def)
  have a0: "\<forall>r \<in> set (inCh ?c). Attempts r = 0"
    by (simp add: sample_client_def)
  let ?s' = "request sample_deps (\<lambda>k. Inr 0) (sample_request 0 2) (s\<lparr>inCh := []\<rparr>)"
  have s': "step sample_deps (Receive (\<lambda>k. Inr 0)) s = Some ?s'"
    using q by (simp add: step_def)
  have r3: "run sample_deps (?as @ [Receive (\<lambda>k. Inr 0)]) ?c = Some ?s'"
    using s s' by (simp only: run_append) simp
  from receive_allocates_nonces_in_enqueue_order [OF s nr a0 s'] ts
  have "tasks ?s' = [(1, sample_request 0 2)]"
    by (simp add: sample_client_def)
  with r3 show ?thesis by simp
qed

text \<open>
  C4, as stated, asks for at most one transaction in flight and for submission in
  enqueue order. On the sample environment with two enqueued requests, both tasks are
  running after two receives; and when the second task finishes first, the
  transaction with nonce 1 is submitted before the one with nonce 0 and the second
  request is answered first, without any retry.
\<close>

theorem tasks_overlap_and_submit_out_of_order:
  "map_option (\<lambda>s. map (ID \<circ> snd) (tasks s))
     (run sample_deps
        [Enqueue (sample_request 0 1), Enqueue (sample_request 0 2),
         Receive (\<lambda>k. Inr 0), Receive (\<lambda>k. Inr 0)]
        (sample_client [])) = Some [1, 2]
   \<and> map_option (\<lambda>s. (map tx_nonce (concat (map submittedTx (calls s))), map fst (sent s)))
       (run sample_deps
          [Enqueue (sample_request 0 1), Enqueue (sample_request 0 2),
           Receive (\<lambda>k. Inr 0), Receive (\<lambda>k. Inr 0),
           Finish 1 sample_backend, Finish 0 sample_backend]
          (sample_client [])) = Some ([1, 0], [2, 1])
   \<and> retries sample_deps
          [Enqueue (sample_request 0 1), Enqueue (sample_request 0 2),
           Receive (\<lambda>k. Inr 0), Receive (\<lambda>k. Inr 0),
           Finish 1 sample_backend, Finish 0 sample_backend]
          (sample_client []) = 0"
  by (simp add: step_def request_def runTransaction_def task_def fn_def deployService_def
      executeTransaction_def estimateGas_def Let_def sample_client_def sample_request_def
      sample_backend_def sample_deps_def NewContractCreation_def WithSignature_def)

end
